theory Spec2Isabelle
  imports Complex_Main
begin

section \<open>Numbers, vectors and landmarks\<close>

text \<open>
  A JavaScript number is modelled as a \<^typ>\<open>real\<close>: the arithmetic of \<^verbatim>\<open>game.js\<close> is
  read as exact arithmetic (no rounding, no NaN, no infinities).  Object literals
  \<^verbatim>\<open>{x, y, z}\<close> become the record \<open>vec3\<close> (fields \<open>vx\<close>, \<open>vy\<close>, \<open>vz\<close>), a Mediapipe
  landmark \<^verbatim>\<open>{x, y, z, visibility}\<close> becomes the record \<open>landmark\<close> (fields \<open>lx\<close>, \<open>ly\<close>,
  \<open>lz\<close>, \<open>visibility\<close>).  A value that may be \<^verbatim>\<open>undefined\<close> or \<^verbatim>\<open>null\<close> is an \<open>option\<close>.
\<close>

record vec3 =
  vx :: real
  vy :: real
  vz :: real

record landmark =
  lx :: real
  ly :: real
  lz :: real
  visibility :: real

text \<open>
  \<^verbatim>\<open>results.poseLandmarks\<close> is a JavaScript array; reading an index that is not there
  gives \<^verbatim>\<open>undefined\<close>.  It is modelled as a partial map from indices to landmarks.
\<close>

type_synonym landmarks = "nat \<Rightarrow> landmark option"

subsection \<open>Coordinate mapping (\<^verbatim>\<open>mapLandmarkToWorld\<close>)\<close>

definition worldWidth :: real where "worldWidth = 3.5"
definition worldHeight :: real where "worldHeight = 3.5"
definition yOffset :: real where "yOffset = 0.1"
definition xOffset :: real where "xOffset = 0"

definition mapLandmarkToWorld :: "landmark option \<Rightarrow> vec3 option" where
  "mapLandmarkToWorld landmark =
     (case landmark of
        None \<Rightarrow> None
      | Some l \<Rightarrow>
          if visibility l < 0.3 then None
          else
            let gameX = (1.0 - lx l - 0.5) * worldWidth + xOffset;
                gameY = (1.0 - ly l) * worldHeight + yOffset;
                gameZ = 0.0
            in Some \<lparr>vx = gameX, vy = max 0 gameY, vz = gameZ\<rparr>)"

subsection \<open>T-pose detection (\<^verbatim>\<open>checkTPose\<close>)\<close>

definition LANDMARK_VISIBILITY_THRESHOLD :: real where
  "LANDMARK_VISIBILITY_THRESHOLD = 0.4"

definition L_SHOULDER :: nat where "L_SHOULDER = 11"
definition R_SHOULDER :: nat where "R_SHOULDER = 12"
definition L_ELBOW :: nat where "L_ELBOW = 13"
definition R_ELBOW :: nat where "R_ELBOW = 14"
definition L_WRIST :: nat where "L_WRIST = 15"
definition R_WRIST :: nat where "R_WRIST = 16"

definition yTolerance :: real where "yTolerance = 0.3"
definition xToleranceShoulder :: real where "xToleranceShoulder = 0.1"
definition xToleranceElbow :: real where "xToleranceElbow = 0.1"

text \<open>The callback of \<^verbatim>\<open>every\<close>: \<^verbatim>\<open>lm && lm.visibility > LANDMARK_VISIBILITY_THRESHOLD\<close>.\<close>

definition visibleEnough :: "landmark option \<Rightarrow> bool" where
  "visibleEnough lm =
     (case lm of None \<Rightarrow> False | Some l \<Rightarrow> visibility l > LANDMARK_VISIBILITY_THRESHOLD)"

text \<open>The three per-arm conditions, named as the local constants of the source.\<close>

definition leftArmHorizontal :: "landmark \<Rightarrow> landmark \<Rightarrow> landmark \<Rightarrow> bool" where
  "leftArmHorizontal lShoulder lElbow lWrist \<longleftrightarrow>
     ly lElbow < ly lShoulder + yTolerance \<and> ly lWrist < ly lElbow + yTolerance"

definition leftArmExtended :: "landmark \<Rightarrow> landmark \<Rightarrow> landmark \<Rightarrow> bool" where
  "leftArmExtended lShoulder lElbow lWrist \<longleftrightarrow>
     \<bar>lx lElbow - lx lShoulder\<bar> > xToleranceShoulder \<and>
     \<bar>lx lWrist - lx lElbow\<bar> > xToleranceElbow"

definition leftArmOutward :: "landmark \<Rightarrow> landmark \<Rightarrow> landmark \<Rightarrow> bool" where
  "leftArmOutward lShoulder lElbow lWrist \<longleftrightarrow>
     lx lElbow > lx lShoulder \<and> lx lWrist > lx lElbow"

definition rightArmHorizontal :: "landmark \<Rightarrow> landmark \<Rightarrow> landmark \<Rightarrow> bool" where
  "rightArmHorizontal rShoulder rElbow rWrist \<longleftrightarrow>
     ly rElbow < ly rShoulder + yTolerance \<and> ly rWrist < ly rElbow + yTolerance"

definition rightArmExtended :: "landmark \<Rightarrow> landmark \<Rightarrow> landmark \<Rightarrow> bool" where
  "rightArmExtended rShoulder rElbow rWrist \<longleftrightarrow>
     \<bar>lx rElbow - lx rShoulder\<bar> > xToleranceShoulder \<and>
     \<bar>lx rWrist - lx rElbow\<bar> > xToleranceElbow"

definition rightArmOutward :: "landmark \<Rightarrow> landmark \<Rightarrow> landmark \<Rightarrow> bool" where
  "rightArmOutward rShoulder rElbow rWrist \<longleftrightarrow>
     lx rElbow < lx rShoulder \<and> lx rWrist < lx rElbow"

definition checkTPose :: "landmarks option \<Rightarrow> bool" where
  "checkTPose landmarks =
     (case landmarks of
        None \<Rightarrow> False
      | Some lms \<Rightarrow>
          if \<not> list_all visibleEnough
                 [lms L_SHOULDER, lms R_SHOULDER, lms L_ELBOW, lms R_ELBOW,
                  lms L_WRIST, lms R_WRIST]
          then False
          else
            let lShoulder = the (lms L_SHOULDER); rShoulder = the (lms R_SHOULDER);
                lElbow = the (lms L_ELBOW); rElbow = the (lms R_ELBOW);
                lWrist = the (lms L_WRIST); rWrist = the (lms R_WRIST)
            in leftArmHorizontal lShoulder lElbow lWrist \<and>
               leftArmExtended lShoulder lElbow lWrist \<and>
               leftArmOutward lShoulder lElbow lWrist \<and>
               rightArmHorizontal rShoulder rElbow rWrist \<and>
               rightArmExtended rShoulder rElbow rWrist \<and>
               rightArmOutward rShoulder rElbow rWrist)"

section \<open>Game state\<close>

text \<open>
  The ball's rigid body as the game uses it: its translation and its linear and angular
  velocity.  \<open>invMass\<close> is the inverse mass the physics engine computed for the body;
  \<^verbatim>\<open>applyImpulse\<close> adds the impulse scaled by it to the linear velocity.
\<close>

record body =
  translation :: vec3
  linvel :: vec3
  angvel :: vec3
  invMass :: real

definition setTranslation :: "vec3 \<Rightarrow> body \<Rightarrow> body" where
  "setTranslation p b = b\<lparr>translation := p\<rparr>"

definition setLinvel :: "vec3 \<Rightarrow> body \<Rightarrow> body" where
  "setLinvel v b = b\<lparr>linvel := v\<rparr>"

definition setAngvel :: "vec3 \<Rightarrow> body \<Rightarrow> body" where
  "setAngvel w b = b\<lparr>angvel := w\<rparr>"

definition applyImpulse :: "vec3 \<Rightarrow> body \<Rightarrow> body" where
  "applyImpulse i b =
     b\<lparr>linvel := \<lparr>vx = vx (linvel b) + invMass b * vx i,
                    vy = vy (linvel b) + invMass b * vy i,
                    vz = vz (linvel b) + invMass b * vz i\<rparr>\<rparr>"

text \<open>
  A kinematic limb proxy: the handle of its collider and the translation its
  position-based parent body takes at the next physics step, which is the last value
  given to \<^verbatim>\<open>setNextKinematicTranslation\<close>, or the translation the body was created
  with.
\<close>

record collider =
  handle :: nat
  kinematicTranslation :: vec3

definition setNextKinematicTranslation :: "vec3 \<Rightarrow> collider \<Rightarrow> collider" where
  "setNextKinematicTranslation p c = c\<lparr>kinematicTranslation := p\<rparr>"

text \<open>
  The global variables of \<^verbatim>\<open>game.js\<close> that the game logic reads and writes: the score,
  the flags, the ball's body, the four limb colliders and the ball's colour.  The
  marker meshes, the leg lines and the page elements are drawn from these and are left
  out.  Two pieces of the browser are part of the state: the timeouts still pending
  (\<open>cooldownTimeouts\<close> holds the due times of the pending cooldown callbacks,
  \<open>flashTimeout\<close> the due time of the pending colour callback) and \<open>flashLog\<close>, the
  calls of \<^verbatim>\<open>flashBallColor\<close> made so far, as (colour, duration) pairs in call order.
\<close>

record game =
  score :: int
  ballJustHitPlayer :: bool
  isTPosing :: bool
  tPoseStartTime :: real
  tPoseResetCooldownActive :: bool
  cooldownTimeouts :: "real list"
  ballBody :: body
  ballColliderHandle :: nat
  leftKneeCollider :: collider
  rightKneeCollider :: collider
  leftFootCollider :: collider
  rightFootCollider :: collider
  ballColor :: nat
  flashTimeout :: "real option"
  flashLog :: "(nat \<times> nat) list"

text \<open>
  What one call of \<^verbatim>\<open>animate\<close> takes from outside: the clock reading, the latest pose
  snapshot (\<open>None\<close> when \<^verbatim>\<open>lastPoseResults\<close> or its \<^verbatim>\<open>poseLandmarks\<close> is missing), what
  \<^verbatim>\<open>physicsWorld.step\<close> does to the ball and the collision events it queues (handle,
  handle, started), and the values \<^verbatim>\<open>Math.random\<close> returns to the two places that may
  call \<^verbatim>\<open>resetBall\<close> (first the draw for x, then the draw for z).
\<close>

record frame =
  elapsedTimeMs :: real
  poseLandmarks :: "landmarks option"
  physicsStep :: "body \<Rightarrow> body"
  collisionEvents :: "(nat \<times> nat \<times> bool) list"
  tposeRandom :: "real \<times> real"
  boundsRandom :: "real \<times> real"

subsection \<open>Constants\<close>

definition playerColliderRadius :: real where "playerColliderRadius = 0.13"
definition ballRadius :: real where "ballRadius = 0.25"
definition groundMesh_position_y :: real where "groundMesh_position_y = -0.5"
definition COLLISION_BASE_IMPULSE_Y :: real where "COLLISION_BASE_IMPULSE_Y = 0.7"
definition MAX_UPWARD_VELOCITY :: real where "MAX_UPWARD_VELOCITY = 5"
definition Z_DAMPING :: real where "Z_DAMPING = 0.8"
definition Z_CORRECTION_FACTOR :: real where "Z_CORRECTION_FACTOR = 0.1"
definition T_POSE_DURATION_THRESHOLD_MS :: real where "T_POSE_DURATION_THRESHOLD_MS = 700"
definition T_POSE_RESET_COOLDOWN_MS :: real where "T_POSE_RESET_COOLDOWN_MS = 2000"
definition L_KNEE :: nat where "L_KNEE = 25"
definition R_KNEE :: nat where "R_KNEE = 26"
definition L_ANKLE :: nat where "L_ANKLE = 27"
definition R_ANKLE :: nat where "R_ANKLE = 28"

text \<open>The colours of the flashes, as the hexadecimal literals of the source.\<close>

definition WHITE :: nat where "WHITE = 0xffffff"
definition CYAN :: nat where "CYAN = 0x00ffff"
definition GREEN :: nat where "GREEN = 0x00ff00"
definition RED :: nat where "RED = 0xff0000"
definition YELLOW :: nat where "YELLOW = 0xffff00"

definition offStage :: vec3 where
  "offStage = \<lparr>vx = -10, vy = -10, vz = -10\<rparr>"

text \<open>
  The state \<^verbatim>\<open>initThree\<close> and \<^verbatim>\<open>initRapier\<close> leave behind.  The collider handles and the
  ball's inverse mass are chosen by the physics engine and are parameters here.
\<close>

definition initGame :: "nat \<Rightarrow> nat \<Rightarrow> nat \<Rightarrow> nat \<Rightarrow> nat \<Rightarrow> real \<Rightarrow> game" where
  "initGame hb hlk hrk hlf hrf im =
     \<lparr>score = 0, ballJustHitPlayer = False, isTPosing = False, tPoseStartTime = 0,
      tPoseResetCooldownActive = False, cooldownTimeouts = [],
      ballBody = \<lparr>translation = \<lparr>vx = 0, vy = 4.0, vz = 0\<rparr>,
                  linvel = \<lparr>vx = 0, vy = 0, vz = 0\<rparr>,
                  angvel = \<lparr>vx = 0, vy = 0, vz = 0\<rparr>, invMass = im\<rparr>,
      ballColliderHandle = hb,
      leftKneeCollider = \<lparr>handle = hlk, kinematicTranslation = offStage\<rparr>,
      rightKneeCollider = \<lparr>handle = hrk, kinematicTranslation = offStage\<rparr>,
      leftFootCollider = \<lparr>handle = hlf, kinematicTranslation = offStage\<rparr>,
      rightFootCollider = \<lparr>handle = hrf, kinematicTranslation = offStage\<rparr>,
      ballColor = WHITE, flashTimeout = None, flashLog = []\<rparr>"

section \<open>Helper functions of the game\<close>

text \<open>
  \<^verbatim>\<open>flashBallColor\<close>: cancels the pending colour timeout, colours the ball and starts a
  new timeout.  \<open>now\<close> is the time of the call, so the timeout is due at
  \<open>now + durationMs\<close>.
\<close>

definition flashBallColor :: "nat \<Rightarrow> nat \<Rightarrow> real \<Rightarrow> game \<Rightarrow> game" where
  "flashBallColor color durationMs now g =
     g\<lparr>ballColor := color,
       flashTimeout := Some (now + real durationMs),
       flashLog := flashLog g @ [(color, durationMs)]\<rparr>"

text \<open>
  \<^verbatim>\<open>resetBall(spawnX, spawnZ)\<close>; \<open>rnd\<close> holds the two values \<^verbatim>\<open>Math.random()\<close> would
  return, used only for a coordinate that is \<^verbatim>\<open>undefined\<close>.
\<close>

definition resetBall :: "real option \<Rightarrow> real option \<Rightarrow> real \<times> real \<Rightarrow> game \<Rightarrow> game" where
  "resetBall spawnX spawnZ rnd g =
     (let startX = (case spawnX of Some sx \<Rightarrow> sx | None \<Rightarrow> (fst rnd - 0.5) * 1.0);
          startZ = (case spawnZ of Some sz \<Rightarrow> sz | None \<Rightarrow> (snd rnd - 0.5) * 0.2);
          startY = 4.0;
          b1 = setTranslation \<lparr>vx = startX, vy = startY, vz = startZ\<rparr> (ballBody g);
          b2 = setLinvel \<lparr>vx = 0, vy = -0.5, vz = 0\<rparr> b1;
          b3 = setAngvel \<lparr>vx = 0, vy = 0, vz = 0\<rparr> b2
      in g\<lparr>ballBody := b3, ballColor := WHITE, ballJustHitPlayer := False\<rparr>)"

text \<open>
  \<^verbatim>\<open>updateKinematicCollider\<close>: the colliders and their parent bodies exist from
  \<^verbatim>\<open>initRapier\<close> on, so the guard reduces to \<^verbatim>\<open>targetPos\<close> being there.  There is no
  \<^verbatim>\<open>else\<close> branch.
\<close>

definition updateKinematicCollider :: "collider \<Rightarrow> vec3 option \<Rightarrow> collider" where
  "updateKinematicCollider c targetPos =
     (case targetPos of
        Some p \<Rightarrow> setNextKinematicTranslation p c
      | None \<Rightarrow> c)"

section \<open>The game loop (\<^verbatim>\<open>animate\<close>)\<close>

text \<open>
  Timeouts.  A callback given to \<^verbatim>\<open>setTimeout\<close> never runs before its delay has passed,
  and it runs between two frames.  The model runs every callback that is due at the
  start of the first frame whose clock reading has reached the due time, and takes the
  clock reading of the frame that sets a timeout as the time of the call.  In the browser
  a callback may run later than that, never earlier.
\<close>

definition runTimeouts :: "real \<Rightarrow> game \<Rightarrow> game" where
  "runTimeouts now g =
     (let g1 = (if list_ex (\<lambda>due. due \<le> now) (cooldownTimeouts g)
                then g\<lparr>tPoseResetCooldownActive := False,
                       cooldownTimeouts := filter (\<lambda>due. now < due) (cooldownTimeouts g)\<rparr>
                else g)
      in case flashTimeout g1 of
           None \<Rightarrow> g1
         | Some due \<Rightarrow>
             if due \<le> now then g1\<lparr>ballColor := WHITE, flashTimeout := None\<rparr> else g1)"

subsection \<open>0. Check for T-pose reset\<close>

definition tposeTrigger :: "frame \<Rightarrow> landmarks \<Rightarrow> game \<Rightarrow> game" where
  "tposeTrigger f lms g =
     (let lShoulderPos = mapLandmarkToWorld (lms L_SHOULDER);
          rShoulderPos = mapLandmarkToWorld (lms R_SHOULDER);
          spawnX = (case (lShoulderPos, rShoulderPos) of
                      (Some l, Some r) \<Rightarrow> Some ((vx l + vx r) / 2)
                    | _ \<Rightarrow> None);
          spawnZ = None;
          g1 = resetBall spawnX spawnZ (tposeRandom f) g;
          g2 = g1\<lparr>score := 0, isTPosing := False, tPoseResetCooldownActive := True\<rparr>;
          g3 = flashBallColor CYAN 300 (elapsedTimeMs f) g2
      in g3\<lparr>cooldownTimeouts :=
               cooldownTimeouts g3 @ [elapsedTimeMs f + T_POSE_RESET_COOLDOWN_MS]\<rparr>)"

definition tposeCheck :: "frame \<Rightarrow> game \<Rightarrow> game" where
  "tposeCheck f g =
     (case poseLandmarks f of
        Some lms \<Rightarrow>
          if \<not> tPoseResetCooldownActive g then
            (let currentPoseIsT = checkTPose (Some lms) in
             if currentPoseIsT then
               (if \<not> isTPosing g
                then g\<lparr>isTPosing := True, tPoseStartTime := elapsedTimeMs f\<rparr>
                else
                  let duration = elapsedTimeMs f - tPoseStartTime g in
                  if duration \<ge> T_POSE_DURATION_THRESHOLD_MS
                  then tposeTrigger f lms g
                  else g)
             else (if isTPosing g then g\<lparr>isTPosing := False\<rparr> else g))
          else (if isTPosing g then g\<lparr>isTPosing := False\<rparr> else g)
      | None \<Rightarrow> (if isTPosing g then g\<lparr>isTPosing := False\<rparr> else g))"

subsection \<open>1. Update the kinematic colliders from the pose\<close>

definition updateColliders :: "frame \<Rightarrow> game \<Rightarrow> game" where
  "updateColliders f g =
     (case poseLandmarks f of
        Some landmarks \<Rightarrow>
          (let leftKneePos = mapLandmarkToWorld (landmarks L_KNEE);
               rightKneePos = mapLandmarkToWorld (landmarks R_KNEE);
               leftFootPos = mapLandmarkToWorld (landmarks L_ANKLE);
               rightFootPos = mapLandmarkToWorld (landmarks R_ANKLE)
           in g\<lparr>leftKneeCollider := updateKinematicCollider (leftKneeCollider g) leftKneePos,
                 rightKneeCollider := updateKinematicCollider (rightKneeCollider g) rightKneePos,
                 leftFootCollider := updateKinematicCollider (leftFootCollider g) leftFootPos,
                 rightFootCollider := updateKinematicCollider (rightFootCollider g) rightFootPos\<rparr>)
      | None \<Rightarrow> g)"

subsection \<open>2. Step the physics world and handle the collisions\<close>

definition playerHandles :: "game \<Rightarrow> nat list" where
  "playerHandles g =
     [handle (leftKneeCollider g), handle (rightKneeCollider g),
      handle (leftFootCollider g), handle (rightFootCollider g)]"

text \<open>\<open>collidedWithPlayer\<close>, as the callback of \<^verbatim>\<open>drainCollisionEvents\<close> computes it.\<close>

definition collidedWithPlayer :: "game \<Rightarrow> nat \<Rightarrow> nat \<Rightarrow> bool" where
  "collidedWithPlayer g handle1 handle2 =
     (if handle1 = ballColliderHandle g \<and> handle2 \<in> set (playerHandles g) then True
      else if handle2 = ballColliderHandle g \<and> handle1 \<in> set (playerHandles g) then True
      else False)"

definition onCollisionEvent :: "real \<Rightarrow> nat \<times> nat \<times> bool \<Rightarrow> game \<Rightarrow> game" where
  "onCollisionEvent now ev g =
     (case ev of (handle1, handle2, started) \<Rightarrow>
        if started \<and> collidedWithPlayer g handle1 handle2 \<and> \<not> ballJustHitPlayer g then
          (let g1 = g\<lparr>score := score g + 1, ballJustHitPlayer := True\<rparr>;
               impulse = \<lparr>vx = 0, vy = COLLISION_BASE_IMPULSE_Y, vz = 0\<rparr>;
               g2 = g1\<lparr>ballBody := applyImpulse impulse (ballBody g1)\<rparr>
           in flashBallColor GREEN 150 now g2)
        else g)"

fun drainCollisionEvents :: "real \<Rightarrow> (nat \<times> nat \<times> bool) list \<Rightarrow> game \<Rightarrow> game" where
  "drainCollisionEvents now [] g = g"
| "drainCollisionEvents now (ev # evs) g =
     drainCollisionEvents now evs (onCollisionEvent now ev g)"

definition stepPhysics :: "frame \<Rightarrow> game \<Rightarrow> game" where
  "stepPhysics f g =
     drainCollisionEvents (elapsedTimeMs f) (collisionEvents f)
       (g\<lparr>ballBody := physicsStep f (ballBody g)\<rparr>)"

subsection \<open>4. to 7. Adjustments after the physics step\<close>

text \<open>
  \<open>ballPosition\<close> is the translation read once after the physics step (section 3 of the
  source); the sections below use that value, also after \<^verbatim>\<open>resetBall\<close> has moved the
  ball.
\<close>

definition clampUpwardVelocity :: "game \<Rightarrow> game" where
  "clampUpwardVelocity g =
     (let currentLinvel = linvel (ballBody g) in
      if vy currentLinvel > MAX_UPWARD_VELOCITY
      then g\<lparr>ballBody := setLinvel \<lparr>vx = vx currentLinvel, vy = MAX_UPWARD_VELOCITY,
                                      vz = vz currentLinvel\<rparr> (ballBody g)\<rparr>
      else g)"

definition resetHitFlag :: "vec3 \<Rightarrow> game \<Rightarrow> game" where
  "resetHitFlag ballPosition g =
     (let currentLinvel = linvel (ballBody g) in
      if vy currentLinvel < -0.1 \<or> vy ballPosition < 0.5
      then g\<lparr>ballJustHitPlayer := False\<rparr>
      else g)"

definition constrainZ :: "vec3 \<Rightarrow> game \<Rightarrow> game" where
  "constrainZ ballPosition g =
     (let currentLinvel = linvel (ballBody g);
          newZVel = vz currentLinvel * Z_DAMPING - vz ballPosition * Z_CORRECTION_FACTOR
      in g\<lparr>ballBody := setLinvel \<lparr>vx = vx currentLinvel, vy = vy currentLinvel,
                                     vz = newZVel\<rparr> (ballBody g)\<rparr>)"

definition boundsCheck :: "frame \<Rightarrow> vec3 \<Rightarrow> game \<Rightarrow> game" where
  "boundsCheck f ballPosition g =
     (let groundLevel = groundMesh_position_y + ballRadius in
      if vy ballPosition < groundLevel \<and> \<not> tPoseResetCooldownActive g then
        (let g1 = resetBall None None (boundsRandom f) g;
             g2 = g1\<lparr>score := 0, ballJustHitPlayer := False\<rparr>
         in flashBallColor RED 250 (elapsedTimeMs f) g2)
      else if vy ballPosition > 8 \<or> \<bar>vx ballPosition\<bar> > 5 \<or> \<bar>vz ballPosition\<bar> > 2 then
        (let g1 = resetBall None None (boundsRandom f) g;
             g2 = g1\<lparr>ballJustHitPlayer := False\<rparr>
         in flashBallColor YELLOW 250 (elapsedTimeMs f) g2)
      else g)"

definition stabilize :: "frame \<Rightarrow> game \<Rightarrow> game" where
  "stabilize f g =
     (let ballPosition = translation (ballBody g)
      in boundsCheck f ballPosition
           (constrainZ ballPosition (resetHitFlag ballPosition (clampUpwardVelocity g))))"

subsection \<open>One frame, and a run of frames\<close>

definition animate :: "frame \<Rightarrow> game \<Rightarrow> game" where
  "animate f g =
     stabilize f (stepPhysics f (updateColliders f (tposeCheck f
       (runTimeouts (elapsedTimeMs f) g))))"

fun run :: "frame list \<Rightarrow> game \<Rightarrow> game" where
  "run [] g = g"
| "run (f # fs) g = run fs (animate f g)"

text \<open>How often a flash of a given colour has been requested so far.\<close>

definition flashCount :: "nat \<Rightarrow> game \<Rightarrow> nat" where
  "flashCount color g = length (filter (\<lambda>c. fst c = color) (flashLog g))"

section \<open>Transformations and sample inputs used in the statements\<close>

text \<open>
  Swapping the left and right shoulder, elbow and wrist entries of a landmark set and
  mirroring every horizontal coordinate (\<open>x\<close> becomes \<open>1 - x\<close>).
\<close>

definition swapLR :: "nat \<Rightarrow> nat" where
  "swapLR i =
     (if i = L_SHOULDER then R_SHOULDER else if i = R_SHOULDER then L_SHOULDER
      else if i = L_ELBOW then R_ELBOW else if i = R_ELBOW then L_ELBOW
      else if i = L_WRIST then R_WRIST else if i = R_WRIST then L_WRIST
      else i)"

definition mirrorX :: "landmark \<Rightarrow> landmark" where
  "mirrorX l = l\<lparr>lx := 1 - lx l\<rparr>"

definition mirrorSwap :: "landmarks \<Rightarrow> landmarks" where
  "mirrorSwap lms = (\<lambda>i. map_option mirrorX (lms (swapLR i)))"

text \<open>
  A pose with both arms raised steeply: the shoulders at height \<open>y = 0.8\<close>, the elbows at
  \<open>0.3\<close>, the wrists at \<open>0.1\<close> (a smaller \<open>y\<close> is higher), every joint clearly visible.
\<close>

definition joint :: "real \<Rightarrow> real \<Rightarrow> landmark" where
  "joint a b = \<lparr>lx = a, ly = b, lz = 0, visibility = 0.9\<rparr>"

definition armsRaised :: landmarks where
  "armsRaised =
     [L_SHOULDER \<mapsto> joint 0.6 0.8, L_ELBOW \<mapsto> joint 0.75 0.3, L_WRIST \<mapsto> joint 0.9 0.1,
      R_SHOULDER \<mapsto> joint 0.4 0.8, R_ELBOW \<mapsto> joint 0.25 0.3, R_WRIST \<mapsto> joint 0.1 0.1]"

text \<open>
  A frame in which the physics step leaves the ball where it is and reports no
  collision, and a pose in which only the left knee is seen, in the middle of the image.
\<close>

definition stillFrame :: "real \<Rightarrow> landmarks option \<Rightarrow> frame" where
  "stillFrame t pose =
     \<lparr>elapsedTimeMs = t, poseLandmarks = pose, physicsStep = (\<lambda>b. b),
      collisionEvents = [], tposeRandom = (0.5, 0.5), boundsRandom = (0.5, 0.5)\<rparr>"

definition kneeSeen :: landmarks where
  "kneeSeen = [L_KNEE \<mapsto> joint 0.5 0.5]"

text \<open>The same pose with the left knee barely visible, below the mapper's threshold.\<close>

definition kneeFaint :: landmarks where
  "kneeFaint = [L_KNEE \<mapsto> \<lparr>lx = 0.5, ly = 0.5, lz = 0, visibility = 0.1\<rparr>]"

text \<open>A started collision event that pairs the ball with one of the four limb proxies.\<close>

definition ballLimbStart :: "game \<Rightarrow> nat \<times> nat \<times> bool \<Rightarrow> bool" where
  "ballLimbStart g ev =
     (case ev of (handle1, handle2, started) \<Rightarrow> started \<and> collidedWithPlayer g handle1 handle2)"

text \<open>The pose snapshot of a frame shows a T-pose.\<close>

definition showsTPose :: "frame \<Rightarrow> bool" where
  "showsTPose f = (case poseLandmarks f of None \<Rightarrow> False | Some lms \<Rightarrow> checkTPose (Some lms))"

text \<open>
  What the scoring branch of the collision callback does to the state, and the two
  conditions of the bounds check, read on the state the physics step has left.
\<close>

definition scoreHit :: "real \<Rightarrow> game \<Rightarrow> game" where
  "scoreHit now g =
     flashBallColor GREEN 150 now
       (g\<lparr>score := score g + 1, ballJustHitPlayer := True,
          ballBody := applyImpulse \<lparr>vx = 0, vy = 0.7, vz = 0\<rparr> (ballBody g)\<rparr>)"

definition dropFires :: "game \<Rightarrow> bool" where
  "dropFires g \<longleftrightarrow>
     vy (translation (ballBody g)) < groundMesh_position_y + ballRadius
     \<and> \<not> tPoseResetCooldownActive g"

definition outOfBounds :: "game \<Rightarrow> bool" where
  "outOfBounds g \<longleftrightarrow>
     vy (translation (ballBody g)) > 8 \<or> \<bar>vx (translation (ballBody g))\<bar> > 5
     \<or> \<bar>vz (translation (ballBody g))\<bar> > 2"

text \<open>
  The world point a frame offers for the landmark with index \<open>i\<close>: none when the frame
  has no pose snapshot, when the landmark is absent, or when its visibility is below
  the mapper's threshold.
\<close>

definition limbTarget :: "frame \<Rightarrow> nat \<Rightarrow> vec3 option" where
  "limbTarget f i =
     (case poseLandmarks f of None \<Rightarrow> None | Some lms \<Rightarrow> mapLandmarkToWorld (lms i))"

text \<open>The game with the ball put at a given place and velocity, for sample states.\<close>

definition ballAt :: "vec3 \<Rightarrow> vec3 \<Rightarrow> game \<Rightarrow> game" where
  "ballAt p v g = g\<lparr>ballBody := setLinvel v (setTranslation p (ballBody g))\<rparr>"

text \<open>
  The gesture reset fires in a frame: read on the state after the timeouts have run,
  this is the conjunction of the guards that lead to the reset branch of section 0.
\<close>

definition tposeFires :: "frame \<Rightarrow> game \<Rightarrow> bool" where
  "tposeFires f g \<longleftrightarrow>
     showsTPose f \<and> \<not> tPoseResetCooldownActive g \<and> isTPosing g
     \<and> elapsedTimeMs f - tPoseStartTime g \<ge> T_POSE_DURATION_THRESHOLD_MS"

text \<open>The state of the ball and of the debounce flag right after a reset.\<close>

definition freshlyReset :: "game \<Rightarrow> bool" where
  "freshlyReset g \<longleftrightarrow>
     vy (translation (ballBody g)) = 4
     \<and> linvel (ballBody g) = \<lparr>vx = 0, vy = -0.5, vz = 0\<rparr>
     \<and> angvel (ballBody g) = \<lparr>vx = 0, vy = 0, vz = 0\<rparr>
     \<and> \<not> ballJustHitPlayer g"

text \<open>A pose with both arms stretched out level with the shoulders.\<close>

definition armsOut :: landmarks where
  "armsOut =
     [L_SHOULDER \<mapsto> joint 0.6 0.4, L_ELBOW \<mapsto> joint 0.75 0.4, L_WRIST \<mapsto> joint 0.9 0.4,
      R_SHOULDER \<mapsto> joint 0.4 0.4, R_ELBOW \<mapsto> joint 0.25 0.4, R_WRIST \<mapsto> joint 0.1 0.4]"

text \<open>
  The pending cooldown timeouts agree with the cooldown flag: at most one is pending,
  and none while the flag is clear.
\<close>

definition cooldownConsistent :: "game \<Rightarrow> bool" where
  "cooldownConsistent g \<longleftrightarrow>
     length (cooldownTimeouts g) \<le> 1
     \<and> (tPoseResetCooldownActive g \<or> cooldownTimeouts g = [])"

section \<open>The landmark mapper\<close>

text \<open>
  C5.  \<^verbatim>\<open>mapLandmarkToWorld\<close> returns no position exactly when the landmark is absent or
  its visibility is below 0.3; otherwise it returns the point with
  \<open>x = (1 - landmark.x - 0.5) * worldWidth\<close>,
  \<open>y = max 0 ((1 - landmark.y) * worldHeight + yOffset)\<close> and \<open>z = 0\<close>; a returned \<open>y\<close> is
  never negative.  The result depends on the argument only: it is a function of it.
\<close>

theorem mapLandmarkToWorld_spec:
  "(mapLandmarkToWorld lm = None \<longleftrightarrow> (lm = None \<or> (\<exists>l. lm = Some l \<and> visibility l < 0.3)))
   \<and> (\<forall>l. lm = Some l \<and> \<not> visibility l < 0.3 \<longrightarrow>
          mapLandmarkToWorld lm =
            Some \<lparr>vx = (1 - lx l - 0.5) * worldWidth,
                  vy = max 0 ((1 - ly l) * worldHeight + yOffset), vz = 0\<rparr>)
   \<and> (\<forall>p. mapLandmarkToWorld lm = Some p \<longrightarrow> 0 \<le> vy p)"
  by (cases lm) (auto simp: mapLandmarkToWorld_def xOffset_def Let_def)

theorem mapLandmarkToWorld_spec_witness:
  "mapLandmarkToWorld (Some \<lparr>lx = 0.25, ly = 0.5, lz = 0, visibility = 0.9\<rparr>) =
     Some \<lparr>vx = 0.875, vy = 1.85, vz = 0\<rparr>
   \<and> mapLandmarkToWorld (Some \<lparr>lx = 0.25, ly = 0.5, lz = 0, visibility = 0.9\<rparr>) \<noteq> None
   \<and> (0::real) \<le> 1.85"
  using mapLandmarkToWorld_spec [of "Some \<lparr>lx = 0.25, ly = 0.5, lz = 0, visibility = 0.9\<rparr>"]
  by (simp add: worldWidth_def worldHeight_def yOffset_def)

section \<open>The T-pose detector\<close>

lemmas joint_ids =
  L_SHOULDER_def R_SHOULDER_def L_ELBOW_def R_ELBOW_def L_WRIST_def R_WRIST_def

lemmas arm_conds =
  leftArmHorizontal_def rightArmHorizontal_def leftArmExtended_def rightArmExtended_def
  leftArmOutward_def rightArmOutward_def

lemmas arm_defs = arm_conds yTolerance_def xToleranceShoulder_def xToleranceElbow_def

text \<open>
  C6, as the specification states it: for a landmark set that passes the visibility
  gate, the horizontal-arm condition of a side holds exactly when the elbow's \<open>y\<close> lies
  within the tolerance of the shoulder's and the wrist's within the tolerance of the
  elbow's, in both directions.  The pose \<open>armsRaised\<close> refutes it: it passes the gate,
  its left elbow is 0.5 above the shoulder, outside the band of 0.3, and yet the
  condition holds and the detector reports a T-pose.
\<close>

theorem horizontal_band_counterexample:
  "list_all visibleEnough
     [armsRaised L_SHOULDER, armsRaised R_SHOULDER, armsRaised L_ELBOW,
      armsRaised R_ELBOW, armsRaised L_WRIST, armsRaised R_WRIST]
   \<and> armsRaised L_SHOULDER = Some (joint 0.6 0.8)
   \<and> armsRaised L_ELBOW = Some (joint 0.75 0.3)
   \<and> armsRaised L_WRIST = Some (joint 0.9 0.1)
   \<and> leftArmHorizontal (joint 0.6 0.8) (joint 0.75 0.3) (joint 0.9 0.1)
   \<and> \<not> (\<bar>ly (joint 0.75 0.3) - ly (joint 0.6 0.8)\<bar> < yTolerance
        \<and> \<bar>ly (joint 0.9 0.1) - ly (joint 0.75 0.3)\<bar> < yTolerance)
   \<and> checkTPose (Some armsRaised)"
  by (simp add: armsRaised_def joint_ids visibleEnough_def joint_def arm_defs checkTPose_def
        LANDMARK_VISIBILITY_THRESHOLD_def)

text \<open>
  C6, amended: the horizontal-arm condition of a side holds exactly when the elbow is
  less than 0.3 below the shoulder and the wrist less than 0.3 below the elbow (in
  normalized \<open>y\<close>, where a larger value is lower).  Only the droop is bounded; an elbow
  or wrist that is higher, by any amount, passes.
\<close>

theorem horizontal_is_droop_bound:
  "(leftArmHorizontal lShoulder lElbow lWrist \<longleftrightarrow>
      ly lElbow - ly lShoulder < 0.3 \<and> ly lWrist - ly lElbow < 0.3)
   \<and> (rightArmHorizontal rShoulder rElbow rWrist \<longleftrightarrow>
      ly rElbow - ly rShoulder < 0.3 \<and> ly rWrist - ly rElbow < 0.3)"
  by (auto simp: arm_defs)

lemma visibleEnough_mirrorX: "visibleEnough (Some (mirrorX l)) = visibleEnough (Some l)"
  by (simp add: visibleEnough_def mirrorX_def)

lemma visibleEnough_map_mirrorX: "visibleEnough (map_option mirrorX lm) = visibleEnough lm"
  by (cases lm) (simp_all add: visibleEnough_def mirrorX_def)

lemma swapLR_joints:
  "swapLR L_SHOULDER = R_SHOULDER" "swapLR R_SHOULDER = L_SHOULDER"
  "swapLR L_ELBOW = R_ELBOW" "swapLR R_ELBOW = L_ELBOW"
  "swapLR L_WRIST = R_WRIST" "swapLR R_WRIST = L_WRIST"
  by (simp_all add: swapLR_def joint_ids)

lemma arm_mirrorX:
  "leftArmHorizontal (mirrorX s) (mirrorX e) (mirrorX w) = rightArmHorizontal s e w"
  "leftArmExtended (mirrorX s) (mirrorX e) (mirrorX w) = rightArmExtended s e w"
  "leftArmOutward (mirrorX s) (mirrorX e) (mirrorX w) = rightArmOutward s e w"
  "rightArmHorizontal (mirrorX s) (mirrorX e) (mirrorX w) = leftArmHorizontal s e w"
  "rightArmExtended (mirrorX s) (mirrorX e) (mirrorX w) = leftArmExtended s e w"
  "rightArmOutward (mirrorX s) (mirrorX e) (mirrorX w) = leftArmOutward s e w"
  by (auto simp: arm_conds mirrorX_def)

text \<open>
  C7.  The detector gives the same result on a landmark set and on the set obtained by
  swapping the left and right shoulder, elbow and wrist entries and mirroring every
  horizontal coordinate.
\<close>

theorem checkTPose_mirror_symmetric:
  "checkTPose (Some (mirrorSwap lms)) = checkTPose (Some lms)"
proof (cases "list_all visibleEnough
                 [lms L_SHOULDER, lms R_SHOULDER, lms L_ELBOW, lms R_ELBOW,
                  lms L_WRIST, lms R_WRIST]")
  case False
  then show ?thesis
    by (auto simp: checkTPose_def mirrorSwap_def swapLR_joints visibleEnough_map_mirrorX)
next
  case True
  then obtain a b c d e f where
    "lms L_SHOULDER = Some a" "lms R_SHOULDER = Some b" "lms L_ELBOW = Some c"
    "lms R_ELBOW = Some d" "lms L_WRIST = Some e" "lms R_WRIST = Some f"
    by (auto simp: visibleEnough_def split: option.splits)
  with True show ?thesis
    by (auto simp: checkTPose_def mirrorSwap_def swapLR_joints visibleEnough_mirrorX
             arm_mirrorX Let_def)
qed

section \<open>How each step of the loop changes the state\<close>

lemmas body_defs = setTranslation_def setLinvel_def setAngvel_def applyImpulse_def

lemmas stabilize_defs =
  stabilize_def boundsCheck_def constrainZ_def resetHitFlag_def clampUpwardVelocity_def
  resetBall_def flashBallColor_def body_defs Let_def

lemmas colors = WHITE_def CYAN_def GREEN_def RED_def YELLOW_def

subsection \<open>Collisions\<close>

lemma onCollisionEvent_cases:
  "onCollisionEvent now ev g =
     (if ballLimbStart g ev \<and> \<not> ballJustHitPlayer g then scoreHit now g else g)"
  by (auto simp: onCollisionEvent_def ballLimbStart_def scoreHit_def Let_def
        COLLISION_BASE_IMPULSE_Y_def split: prod.splits)

lemma scoreHit_flag: "ballJustHitPlayer (scoreHit now g)"
  by (simp add: scoreHit_def flashBallColor_def)

lemma drain_flag_set:
  "ballJustHitPlayer g \<Longrightarrow> drainCollisionEvents now evs g = g"
  by (induction evs) (simp_all add: onCollisionEvent_cases)

lemma drain_cases:
  "drainCollisionEvents now evs g =
     (if \<not> ballJustHitPlayer g \<and> (\<exists>ev\<in>set evs. ballLimbStart g ev)
      then scoreHit now g else g)"
proof (induction evs)
  case Nil
  then show ?case by simp
next
  case (Cons ev evs)
  show ?case
  proof (cases "ballLimbStart g ev \<and> \<not> ballJustHitPlayer g")
    case True
    then show ?thesis
      by (simp add: onCollisionEvent_cases drain_flag_set scoreHit_flag)
  next
    case False
    then show ?thesis
      using Cons.IH by (auto simp: onCollisionEvent_cases)
  qed
qed

lemma stepPhysics_cases:
  "stepPhysics f g = g\<lparr>ballBody := physicsStep f (ballBody g)\<rparr>
   \<or> stepPhysics f g = scoreHit (elapsedTimeMs f) (g\<lparr>ballBody := physicsStep f (ballBody g)\<rparr>)"
  by (simp add: stepPhysics_def drain_cases)

lemma scoreHit_fields:
  "isTPosing (scoreHit now g) = isTPosing g"
  "tPoseStartTime (scoreHit now g) = tPoseStartTime g"
  "tPoseResetCooldownActive (scoreHit now g) = tPoseResetCooldownActive g"
  "cooldownTimeouts (scoreHit now g) = cooldownTimeouts g"
  "leftKneeCollider (scoreHit now g) = leftKneeCollider g"
  "rightKneeCollider (scoreHit now g) = rightKneeCollider g"
  "leftFootCollider (scoreHit now g) = leftFootCollider g"
  "rightFootCollider (scoreHit now g) = rightFootCollider g"
  "score (scoreHit now g) = score g + 1"
  "flashLog (scoreHit now g) = flashLog g @ [(GREEN, 150)]"
  by (simp_all add: scoreHit_def flashBallColor_def)

lemma stepPhysics_fields:
  "isTPosing (stepPhysics f g) = isTPosing g"
  "tPoseStartTime (stepPhysics f g) = tPoseStartTime g"
  "tPoseResetCooldownActive (stepPhysics f g) = tPoseResetCooldownActive g"
  "cooldownTimeouts (stepPhysics f g) = cooldownTimeouts g"
  "leftKneeCollider (stepPhysics f g) = leftKneeCollider g"
  "rightKneeCollider (stepPhysics f g) = rightKneeCollider g"
  "leftFootCollider (stepPhysics f g) = leftFootCollider g"
  "rightFootCollider (stepPhysics f g) = rightFootCollider g"
  using stepPhysics_cases [of f g] by (auto simp: scoreHit_fields)

lemma stepPhysics_score:
  "score (stepPhysics f g) = score g \<or> score (stepPhysics f g) = score g + 1"
  using stepPhysics_cases [of f g] by (auto simp: scoreHit_fields)

lemma stepPhysics_flashCount:
  "c \<noteq> GREEN \<Longrightarrow> flashCount c (stepPhysics f g) = flashCount c g"
  using stepPhysics_cases [of f g] by (auto simp: scoreHit_fields flashCount_def)

subsection \<open>The adjustments after the physics step\<close>

lemma stabilize_score:
  "score (stabilize f g) = (if dropFires g then 0 else score g)"
  by (auto simp: stabilize_defs dropFires_def)

lemma stabilize_flashLog:
  "flashLog (stabilize f g) =
     (if dropFires g then flashLog g @ [(RED, 250)]
      else if outOfBounds g then flashLog g @ [(YELLOW, 250)] else flashLog g)"
  by (auto simp: stabilize_defs dropFires_def outOfBounds_def)

lemma stabilize_translation:
  "translation (ballBody (stabilize f g)) =
     (if dropFires g \<or> outOfBounds g
      then \<lparr>vx = fst (boundsRandom f) - 0.5, vy = 4,
            vz = (snd (boundsRandom f) - 0.5) * 0.2\<rparr>
      else translation (ballBody g))"
  by (auto simp: stabilize_defs dropFires_def outOfBounds_def)

lemma stabilize_ballColor:
  "ballColor (stabilize f g) =
     (if dropFires g then RED else if outOfBounds g then YELLOW else ballColor g)"
  by (auto simp: stabilize_defs dropFires_def outOfBounds_def)

lemma stabilize_linvel_y:
  "vy (linvel (ballBody (stabilize f g))) =
     (if dropFires g \<or> outOfBounds g then -0.5
      else min (vy (linvel (ballBody g))) MAX_UPWARD_VELOCITY)"
  by (auto simp: stabilize_defs dropFires_def outOfBounds_def)

lemma stabilize_fields:
  "isTPosing (stabilize f g) = isTPosing g"
  "tPoseStartTime (stabilize f g) = tPoseStartTime g"
  "tPoseResetCooldownActive (stabilize f g) = tPoseResetCooldownActive g"
  "cooldownTimeouts (stabilize f g) = cooldownTimeouts g"
  "leftKneeCollider (stabilize f g) = leftKneeCollider g"
  "rightKneeCollider (stabilize f g) = rightKneeCollider g"
  "leftFootCollider (stabilize f g) = leftFootCollider g"
  "rightFootCollider (stabilize f g) = rightFootCollider g"
  by (simp_all add: stabilize_defs)

lemma stabilize_flashCount_CYAN:
  "flashCount CYAN (stabilize f g) = flashCount CYAN g"
  by (simp add: stabilize_flashLog flashCount_def colors)

lemma stabilize_flashCount_RED:
  "flashCount RED (stabilize f g) = flashCount RED g + (if dropFires g then 1 else 0)"
  by (simp add: stabilize_flashLog flashCount_def colors)

subsection \<open>Timeouts, the T-pose check and the colliders\<close>

lemma runTimeouts_fields:
  "isTPosing (runTimeouts now g) = isTPosing g"
  "tPoseStartTime (runTimeouts now g) = tPoseStartTime g"
  "leftKneeCollider (runTimeouts now g) = leftKneeCollider g"
  "rightKneeCollider (runTimeouts now g) = rightKneeCollider g"
  "leftFootCollider (runTimeouts now g) = leftFootCollider g"
  "rightFootCollider (runTimeouts now g) = rightFootCollider g"
  "score (runTimeouts now g) = score g"
  "flashLog (runTimeouts now g) = flashLog g"
  by (simp_all add: runTimeouts_def Let_def split: option.splits)

lemma list_ex_due:
  "list_ex (\<lambda>due. due \<le> now) xs \<longleftrightarrow> \<not> (\<forall>due\<in>set xs. (now::real) < due)"
  by (auto simp: list_ex_iff not_less)

lemma filter_none_due:
  "\<forall>due\<in>set xs. (now::real) < due \<Longrightarrow> filter (\<lambda>due. now < due) xs = xs"
  by (simp add: filter_id_conv)

lemma runTimeouts_cooldown:
  "tPoseResetCooldownActive (runTimeouts now g) =
     (tPoseResetCooldownActive g \<and> (\<forall>due\<in>set (cooldownTimeouts g). now < due))"
  "cooldownTimeouts (runTimeouts now g) = filter (\<lambda>due. now < due) (cooldownTimeouts g)"
  by (simp_all add: runTimeouts_def Let_def list_ex_due filter_none_due split: option.splits)

lemma updateColliders_fields:
  "isTPosing (updateColliders f g) = isTPosing g"
  "tPoseStartTime (updateColliders f g) = tPoseStartTime g"
  "tPoseResetCooldownActive (updateColliders f g) = tPoseResetCooldownActive g"
  "cooldownTimeouts (updateColliders f g) = cooldownTimeouts g"
  "score (updateColliders f g) = score g"
  "flashLog (updateColliders f g) = flashLog g"
  by (simp_all add: updateColliders_def Let_def split: option.splits)

lemma updateColliders_targets:
  "kinematicTranslation (leftKneeCollider (updateColliders f g)) =
     (case limbTarget f L_KNEE of Some p \<Rightarrow> p
      | None \<Rightarrow> kinematicTranslation (leftKneeCollider g))"
  "kinematicTranslation (rightKneeCollider (updateColliders f g)) =
     (case limbTarget f R_KNEE of Some p \<Rightarrow> p
      | None \<Rightarrow> kinematicTranslation (rightKneeCollider g))"
  "kinematicTranslation (leftFootCollider (updateColliders f g)) =
     (case limbTarget f L_ANKLE of Some p \<Rightarrow> p
      | None \<Rightarrow> kinematicTranslation (leftFootCollider g))"
  "kinematicTranslation (rightFootCollider (updateColliders f g)) =
     (case limbTarget f R_ANKLE of Some p \<Rightarrow> p
      | None \<Rightarrow> kinematicTranslation (rightFootCollider g))"
  by (simp_all add: updateColliders_def limbTarget_def updateKinematicCollider_def
        setNextKinematicTranslation_def Let_def split: option.splits)

lemmas tpose_defs =
  tposeCheck_def tposeTrigger_def tposeFires_def showsTPose_def resetBall_def
  flashBallColor_def body_defs Let_def

lemma tposeCheck_colliders:
  "leftKneeCollider (tposeCheck f g) = leftKneeCollider g"
  "rightKneeCollider (tposeCheck f g) = rightKneeCollider g"
  "leftFootCollider (tposeCheck f g) = leftFootCollider g"
  "rightFootCollider (tposeCheck f g) = rightFootCollider g"
  by (simp_all add: tpose_defs split: option.splits)

lemma tposeCheck_score:
  "score (tposeCheck f g) = (if tposeFires f g then 0 else score g)"
  by (auto simp: tpose_defs split: option.splits)

lemma tposeCheck_flashLog:
  "flashLog (tposeCheck f g) =
     (if tposeFires f g then flashLog g @ [(CYAN, 300)] else flashLog g)"
  by (auto simp: tpose_defs split: option.splits)

lemma tposeCheck_cooldown:
  "tPoseResetCooldownActive (tposeCheck f g) =
     (tPoseResetCooldownActive g \<or> tposeFires f g)"
  "cooldownTimeouts (tposeCheck f g) =
     (if tposeFires f g
      then cooldownTimeouts g @ [elapsedTimeMs f + T_POSE_RESET_COOLDOWN_MS]
      else cooldownTimeouts g)"
  by (auto simp: tpose_defs split: option.splits)

lemma tposeCheck_hold:
  "isTPosing (tposeCheck f g) =
     (showsTPose f \<and> \<not> tPoseResetCooldownActive g \<and> \<not> tposeFires f g)"
  "tPoseStartTime (tposeCheck f g) =
     (if showsTPose f \<and> \<not> tPoseResetCooldownActive g \<and> \<not> isTPosing g
      then elapsedTimeMs f else tPoseStartTime g)"
  by (auto simp: tpose_defs split: option.splits)

section \<open>Limb proxies\<close>

lemma animate_colliders:
  "kinematicTranslation (leftKneeCollider (animate f g)) =
     (case limbTarget f L_KNEE of Some p \<Rightarrow> p
      | None \<Rightarrow> kinematicTranslation (leftKneeCollider g))"
  "kinematicTranslation (rightKneeCollider (animate f g)) =
     (case limbTarget f R_KNEE of Some p \<Rightarrow> p
      | None \<Rightarrow> kinematicTranslation (rightKneeCollider g))"
  "kinematicTranslation (leftFootCollider (animate f g)) =
     (case limbTarget f L_ANKLE of Some p \<Rightarrow> p
      | None \<Rightarrow> kinematicTranslation (leftFootCollider g))"
  "kinematicTranslation (rightFootCollider (animate f g)) =
     (case limbTarget f R_ANKLE of Some p \<Rightarrow> p
      | None \<Rightarrow> kinematicTranslation (rightFootCollider g))"
  by (simp_all add: animate_def stabilize_fields stepPhysics_fields updateColliders_targets
        tposeCheck_colliders runTimeouts_fields split: option.splits)

lemma limbTarget_samples:
  "limbTarget (stillFrame t (Some kneeSeen)) L_KNEE = Some \<lparr>vx = 0, vy = 1.85, vz = 0\<rparr>"
  "limbTarget (stillFrame t None) L_KNEE = None"
  "limbTarget (stillFrame t (Some kneeFaint)) L_KNEE = None"
  by (simp_all add: limbTarget_def stillFrame_def kneeSeen_def kneeFaint_def joint_def
        mapLandmarkToWorld_def worldWidth_def worldHeight_def yOffset_def xOffset_def)

text \<open>
  C1.  The specification requires that in a frame in which a limb's landmark is absent
  or below the mapper's threshold, or that has no pose snapshot, the limb's proxy is
  moved off the play area and never left at its last position.  The code does not do
  that.  \<^verbatim>\<open>updateKinematicCollider\<close> acts only on a target that is there and has no other
  branch, and the branch of \<^verbatim>\<open>animate\<close> for a missing snapshot hides the marker meshes
  only, although \<^verbatim>\<open>updateMarkerMesh\<close> takes the limb's marker away in the same case and
  the proxies are created off-stage.  Two frames show it: the first sees the left knee,
  which puts the proxy at \<open>(0, 1.85, 0)\<close>; the second has no snapshot, or has the knee
  below the threshold, and the proxy is still at \<open>(0, 1.85, 0)\<close> afterwards, not at the
  off-stage position.
\<close>

theorem stale_proxy_counterexample:
  "limbTarget (stillFrame 16 None) L_KNEE = None
   \<and> kinematicTranslation (leftKneeCollider
        (run [stillFrame 0 (Some kneeSeen), stillFrame 16 None] (initGame 1 2 3 4 5 1)))
      = \<lparr>vx = 0, vy = 1.85, vz = 0\<rparr>
   \<and> kinematicTranslation (leftKneeCollider
        (run [stillFrame 0 (Some kneeSeen), stillFrame 16 None] (initGame 1 2 3 4 5 1)))
      \<noteq> offStage
   \<and> limbTarget (stillFrame 16 (Some kneeFaint)) L_KNEE = None
   \<and> kinematicTranslation (leftKneeCollider
        (run [stillFrame 0 (Some kneeSeen), stillFrame 16 (Some kneeFaint)]
           (initGame 1 2 3 4 5 1)))
      = \<lparr>vx = 0, vy = 1.85, vz = 0\<rparr>"
  by (simp add: animate_colliders limbTarget_samples offStage_def)

section \<open>Collision scoring\<close>

text \<open>
  C2.  A batch of collision events is drained from a state \<open>g\<close>.  If the debounce flag
  is set, or no event of the batch is a started ball-limb event, nothing changes.  If
  the flag is clear and the batch has at least one started ball-limb event, the result
  is that of scoring once at \<open>g\<close>: the score is one higher, the flag is set, the impulse
  \<open>(0, 0.7, 0)\<close> has been applied once to the ball, one green flash has been requested,
  and nothing else differs, however many such events the batch holds.
\<close>

theorem collision_batch_scores_once:
  "(ballJustHitPlayer g \<longrightarrow> drainCollisionEvents now evs g = g)
   \<and> ((\<forall>ev\<in>set evs. \<not> ballLimbStart g ev) \<longrightarrow> drainCollisionEvents now evs g = g)
   \<and> (\<not> ballJustHitPlayer g \<and> (\<exists>ev\<in>set evs. ballLimbStart g ev) \<longrightarrow>
        score (drainCollisionEvents now evs g) = score g + 1
        \<and> ballJustHitPlayer (drainCollisionEvents now evs g)
        \<and> ballBody (drainCollisionEvents now evs g) =
            applyImpulse \<lparr>vx = 0, vy = 0.7, vz = 0\<rparr> (ballBody g)
        \<and> drainCollisionEvents now evs g =
            flashBallColor GREEN 150 now
              (g\<lparr>score := score g + 1, ballJustHitPlayer := True,
                 ballBody := applyImpulse \<lparr>vx = 0, vy = 0.7, vz = 0\<rparr> (ballBody g)\<rparr>))"
  by (auto simp: drain_cases scoreHit_def flashBallColor_def)

lemma initGame_fields:
  "score (initGame hb hlk hrk hlf hrf im) = 0"
  "\<not> ballJustHitPlayer (initGame hb hlk hrk hlf hrf im)"
  "\<not> isTPosing (initGame hb hlk hrk hlf hrf im)"
  "\<not> tPoseResetCooldownActive (initGame hb hlk hrk hlf hrf im)"
  "cooldownTimeouts (initGame hb hlk hrk hlf hrf im) = []"
  "flashLog (initGame hb hlk hrk hlf hrf im) = []"
  by (simp_all add: initGame_def)

lemma ballLimbStart_samples:
  "ballLimbStart (initGame 10 11 12 13 14 1) (10, 11, True)"
  "ballLimbStart (initGame 10 11 12 13 14 1) (13, 10, True)"
  "\<not> ballLimbStart (initGame 10 11 12 13 14 1) (10, 11, False)"
  "\<not> ballLimbStart (initGame 10 11 12 13 14 1) (7, 10, True)"
  by (simp_all add: ballLimbStart_def collidedWithPlayer_def playerHandles_def initGame_def)

theorem collision_batch_scores_once_witness:
  "\<not> ballJustHitPlayer (initGame 10 11 12 13 14 1)
   \<and> (\<exists>ev\<in>set [(7, 10, True), (10, 11, True), (13, 10, True)].
         ballLimbStart (initGame 10 11 12 13 14 1) ev)
   \<and> score (drainCollisionEvents 0 [(7, 10, True), (10, 11, True), (13, 10, True)]
        (initGame 10 11 12 13 14 1)) = 1
   \<and> \<not> ballLimbStart (initGame 10 11 12 13 14 1) (7, 10, True)
   \<and> \<not> ballLimbStart (initGame 10 11 12 13 14 1) (10, 11, False)
   \<and> drainCollisionEvents 0 [(7, 10, True), (10, 11, False)] (initGame 10 11 12 13 14 1)
       = initGame 10 11 12 13 14 1
   \<and> ballJustHitPlayer (scoreHit 0 (initGame 10 11 12 13 14 1))
   \<and> drainCollisionEvents 0 [(10, 11, True)] (scoreHit 0 (initGame 10 11 12 13 14 1))
       = scoreHit 0 (initGame 10 11 12 13 14 1)"
proof -
  let ?g = "initGame 10 11 12 13 14 1"
  let ?three = "[(7, 10, True), (10, 11, True), (13, 10, True)] :: (nat \<times> nat \<times> bool) list"
  let ?two = "[(7, 10, True), (10, 11, False)] :: (nat \<times> nat \<times> bool) list"
  have clear: "\<not> ballJustHitPlayer ?g"
    by (simp add: initGame_fields)
  have some: "\<exists>ev\<in>set ?three. ballLimbStart ?g ev"
    using ballLimbStart_samples by simp
  have none: "\<forall>ev\<in>set ?two. \<not> ballLimbStart ?g ev"
    using ballLimbStart_samples by simp
  have flag: "ballJustHitPlayer (scoreHit 0 ?g)"
    by (simp add: scoreHit_flag)
  have "score (drainCollisionEvents 0 ?three ?g) = score ?g + 1"
    using collision_batch_scores_once [of ?g 0 ?three] clear some by blast
  moreover have "drainCollisionEvents 0 ?two ?g = ?g"
    using collision_batch_scores_once [of ?g 0 ?two] none by blast
  moreover have "drainCollisionEvents 0 [(10, 11, True)] (scoreHit 0 ?g) = scoreHit 0 ?g"
    using collision_batch_scores_once [of "scoreHit 0 ?g" 0 "[(10, 11, True)]"] flag by blast
  ultimately show ?thesis
    using clear some ballLimbStart_samples flag by (simp only: initGame_fields) simp
qed

section \<open>The stabilizer\<close>

lemma animate_score_nonneg: "0 \<le> score g \<Longrightarrow> 0 \<le> score (animate f g)"
proof -
  assume nn: "0 \<le> score g"
  let ?a = "tposeCheck f (runTimeouts (elapsedTimeMs f) g)"
  let ?b = "stepPhysics f (updateColliders f ?a)"
  have "0 \<le> score ?a"
    using nn by (simp add: tposeCheck_score runTimeouts_fields)
  then have "0 \<le> score ?b"
    using stepPhysics_score [of f "updateColliders f ?a"]
    by (auto simp: updateColliders_fields)
  then show ?thesis
    by (simp add: animate_def stabilize_score)
qed

lemma run_score_nonneg: "0 \<le> score g \<Longrightarrow> 0 \<le> score (run fs g)"
  by (induction fs arbitrary: g) (simp_all add: animate_score_nonneg)

text \<open>
  C8.  The bounds check of the stabilizer pass, on the state \<open>g\<close> the physics step has
  left.  If the ball's height is below ground surface plus ball radius, which is
  \<open>-0.25\<close>, and no gesture cooldown is active, the drop reset fires: the score becomes 0,
  the ball is respawned at height 4 at the default (random) place, and a red flash is
  requested.  Otherwise, if the height exceeds 8 or \<open>|x| > 5\<close> or \<open>|z| > 2\<close>, the
  out-of-bounds reset fires: the ball is respawned in the same way, the score is
  unchanged, and a yellow flash is requested.  The score is never negative: a frame
  keeps it non-negative, and it is non-negative after every run from the initial state.
\<close>

theorem bounds_check_resets:
  "(vy (translation (ballBody g)) < -0.25 \<and> \<not> tPoseResetCooldownActive g \<longrightarrow>
      score (stabilize f g) = 0
      \<and> translation (ballBody (stabilize f g)) =
          \<lparr>vx = fst (boundsRandom f) - 0.5, vy = 4,
           vz = (snd (boundsRandom f) - 0.5) * 0.2\<rparr>
      \<and> flashLog (stabilize f g) = flashLog g @ [(RED, 250)]
      \<and> ballColor (stabilize f g) = RED)
   \<and> (\<not> (vy (translation (ballBody g)) < -0.25 \<and> \<not> tPoseResetCooldownActive g)
       \<and> (vy (translation (ballBody g)) > 8 \<or> \<bar>vx (translation (ballBody g))\<bar> > 5
            \<or> \<bar>vz (translation (ballBody g))\<bar> > 2) \<longrightarrow>
      score (stabilize f g) = score g
      \<and> translation (ballBody (stabilize f g)) =
          \<lparr>vx = fst (boundsRandom f) - 0.5, vy = 4,
           vz = (snd (boundsRandom f) - 0.5) * 0.2\<rparr>
      \<and> flashLog (stabilize f g) = flashLog g @ [(YELLOW, 250)]
      \<and> ballColor (stabilize f g) = YELLOW)
   \<and> (0 \<le> score g \<longrightarrow> 0 \<le> score (animate f g))
   \<and> 0 \<le> score (run fs (initGame hb hlk hrk hlf hrf im))"
proof -
  have d: "dropFires g \<longleftrightarrow>
             vy (translation (ballBody g)) < -0.25 \<and> \<not> tPoseResetCooldownActive g"
    by (simp add: dropFires_def groundMesh_position_y_def ballRadius_def)
  have o: "outOfBounds g \<longleftrightarrow>
             vy (translation (ballBody g)) > 8 \<or> \<bar>vx (translation (ballBody g))\<bar> > 5
             \<or> \<bar>vz (translation (ballBody g))\<bar> > 2"
    by (simp add: outOfBounds_def)
  have "0 \<le> score (run fs (initGame hb hlk hrk hlf hrf im))"
    by (rule run_score_nonneg) (simp add: initGame_fields)
  then show ?thesis
    unfolding d [symmetric] o [symmetric]
    by (simp add: stabilize_score stabilize_translation stabilize_flashLog
          stabilize_ballColor animate_score_nonneg)
qed

lemma sample_ball_fields:
  "translation (ballBody (ballAt p v g)) = p"
  "linvel (ballBody (ballAt p v g)) = v"
  "tPoseResetCooldownActive (ballAt p v g) = tPoseResetCooldownActive g"
  "score (ballAt p v g) = score g"
  "flashLog (ballAt p v g) = flashLog g"
  by (simp_all add: ballAt_def body_defs)

theorem bounds_check_resets_witness:
  "score (stabilize (stillFrame 0 None)
       (ballAt \<lparr>vx = 0, vy = -0.3, vz = 0\<rparr> \<lparr>vx = 0, vy = -2, vz = 0\<rparr>
          (scoreHit 0 (initGame 10 11 12 13 14 1)))) = 0
   \<and> vy (translation (ballBody (stabilize (stillFrame 0 None)
       (ballAt \<lparr>vx = 0, vy = -0.3, vz = 0\<rparr> \<lparr>vx = 0, vy = -2, vz = 0\<rparr>
          (scoreHit 0 (initGame 10 11 12 13 14 1)))))) = 4
   \<and> score (stabilize (stillFrame 0 None)
       (ballAt \<lparr>vx = 0, vy = 9, vz = 0\<rparr> \<lparr>vx = 0, vy = 2, vz = 0\<rparr>
          (scoreHit 0 (initGame 10 11 12 13 14 1)))) = 1
   \<and> flashLog (stabilize (stillFrame 0 None)
       (ballAt \<lparr>vx = 0, vy = 9, vz = 0\<rparr> \<lparr>vx = 0, vy = 2, vz = 0\<rparr>
          (scoreHit 0 (initGame 10 11 12 13 14 1)))) = [(GREEN, 150), (YELLOW, 250)]
   \<and> 0 \<le> score (animate (stillFrame 0 None) (scoreHit 0 (initGame 10 11 12 13 14 1)))"
proof -
  let ?g = "scoreHit 0 (initGame 10 11 12 13 14 1)"
  let ?low = "ballAt \<lparr>vx = 0, vy = -0.3, vz = 0\<rparr> \<lparr>vx = 0, vy = -2, vz = 0\<rparr> ?g"
  let ?high = "ballAt \<lparr>vx = 0, vy = 9, vz = 0\<rparr> \<lparr>vx = 0, vy = 2, vz = 0\<rparr> ?g"
  have s: "score ?g = 1" "flashLog ?g = [(GREEN, 150)]" "\<not> tPoseResetCooldownActive ?g"
    by (simp_all add: scoreHit_fields initGame_fields)
  have low: "vy (translation (ballBody ?low)) < -0.25 \<and> \<not> tPoseResetCooldownActive ?low"
    using s by (simp add: sample_ball_fields)
  have high: "\<not> (vy (translation (ballBody ?high)) < -0.25 \<and> \<not> tPoseResetCooldownActive ?high)
       \<and> (vy (translation (ballBody ?high)) > 8 \<or> \<bar>vx (translation (ballBody ?high))\<bar> > 5
            \<or> \<bar>vz (translation (ballBody ?high))\<bar> > 2)"
    by (simp add: sample_ball_fields)
  have nn: "0 \<le> score ?g"
    using s by simp
  have "score (stabilize (stillFrame 0 None) ?low) = 0
        \<and> translation (ballBody (stabilize (stillFrame 0 None) ?low)) =
            \<lparr>vx = fst (boundsRandom (stillFrame 0 None)) - 0.5, vy = 4,
             vz = (snd (boundsRandom (stillFrame 0 None)) - 0.5) * 0.2\<rparr>"
    using bounds_check_resets [of ?low "stillFrame 0 None"] low by blast
  moreover have "score (stabilize (stillFrame 0 None) ?high) = score ?high
        \<and> flashLog (stabilize (stillFrame 0 None) ?high) = flashLog ?high @ [(YELLOW, 250)]"
    using bounds_check_resets [of ?high "stillFrame 0 None"] high by blast
  moreover have "0 \<le> score (animate (stillFrame 0 None) ?g)"
    using bounds_check_resets [of ?g "stillFrame 0 None"] nn by blast
  ultimately show ?thesis
    using s by (simp add: sample_ball_fields)
qed

text \<open>
  C9.  The velocity clamp of the stabilizer pass sets a vertical velocity above the
  maximum 5 to exactly 5 and leaves one at or below 5 unchanged, and never touches the
  other two components: 7 becomes 5, 3 stays 3.  After the whole pass the vertical
  velocity is the clamped one, unless the bounds check of the same pass has respawned
  the ball.
\<close>

theorem upward_velocity_clamped:
  "vy (linvel (ballBody (clampUpwardVelocity g))) = min (vy (linvel (ballBody g))) 5
   \<and> vx (linvel (ballBody (clampUpwardVelocity g))) = vx (linvel (ballBody g))
   \<and> vz (linvel (ballBody (clampUpwardVelocity g))) = vz (linvel (ballBody g))
   \<and> vy (linvel (ballBody (clampUpwardVelocity
         (ballAt p \<lparr>vx = a, vy = 7, vz = c\<rparr> g)))) = 5
   \<and> vy (linvel (ballBody (clampUpwardVelocity
         (ballAt p \<lparr>vx = a, vy = 3, vz = c\<rparr> g)))) = 3
   \<and> vy (linvel (ballBody (stabilize f g))) =
       (if dropFires g \<or> outOfBounds g then -0.5 else min (vy (linvel (ballBody g))) 5)"
  by (auto simp: clampUpwardVelocity_def MAX_UPWARD_VELOCITY_def Let_def setLinvel_def
        sample_ball_fields stabilize_linvel_y)

lemma resetBall_fresh: "freshlyReset (resetBall spawnX spawnZ rnd g)"
  by (simp add: freshlyReset_def resetBall_def body_defs Let_def)

lemma tposeTrigger_fresh: "freshlyReset (tposeTrigger f lms g)"
  by (simp add: freshlyReset_def tposeTrigger_def resetBall_def flashBallColor_def body_defs
        Let_def)

lemma stabilize_fresh: "dropFires g \<or> outOfBounds g \<Longrightarrow> freshlyReset (stabilize f g)"
  by (auto simp: freshlyReset_def stabilize_defs dropFires_def outOfBounds_def)

lemma resetBall_spawn:
  "vx (translation (ballBody (resetBall None spawnZ rnd g))) = fst rnd - 0.5"
  "vz (translation (ballBody (resetBall spawnX None rnd g))) = (snd rnd - 0.5) * 0.2"
  "vx (translation (ballBody (resetBall (Some sx) spawnZ rnd g))) = sx"
  "vz (translation (ballBody (resetBall spawnX (Some sz) rnd g))) = sz"
  by (simp_all add: resetBall_def body_defs Let_def)

text \<open>
  C10.  \<^verbatim>\<open>resetBall\<close> leaves the ball at height 4 with linear velocity \<open>(0, -0.5, 0)\<close>
  and angular velocity zero, and clears the debounce flag; so does the gesture reset,
  and so does a stabilizer pass in which the drop or the out-of-bounds reset fires.
  Without a spawn coordinate, and with \<^verbatim>\<open>Math.random()\<close> in \<open>[0, 1)\<close>, the spawn \<open>x\<close>
  lies in \<open>[-0.5, 0.5)\<close> and the spawn \<open>z\<close> in \<open>[-0.1, 0.1)\<close>.
\<close>

theorem reset_state:
  "freshlyReset (resetBall spawnX spawnZ rnd g)
   \<and> freshlyReset (tposeTrigger f lms g)
   \<and> (dropFires g \<or> outOfBounds g \<longrightarrow> freshlyReset (stabilize f g))
   \<and> (0 \<le> fst rnd \<and> fst rnd < 1 \<longrightarrow>
        -0.5 \<le> vx (translation (ballBody (resetBall None spawnZ rnd g)))
        \<and> vx (translation (ballBody (resetBall None spawnZ rnd g))) < 0.5)
   \<and> (0 \<le> snd rnd \<and> snd rnd < 1 \<longrightarrow>
        -0.1 \<le> vz (translation (ballBody (resetBall spawnX None rnd g)))
        \<and> vz (translation (ballBody (resetBall spawnX None rnd g))) < 0.1)"
  by (simp add: resetBall_fresh tposeTrigger_fresh stabilize_fresh resetBall_spawn)

theorem reset_state_witness:
  "dropFires (ballAt \<lparr>vx = 0, vy = -0.3, vz = 0\<rparr> \<lparr>vx = 0, vy = -2, vz = 0\<rparr>
      (initGame 10 11 12 13 14 1))
   \<and> freshlyReset (stabilize (stillFrame 0 None)
        (ballAt \<lparr>vx = 0, vy = -0.3, vz = 0\<rparr> \<lparr>vx = 0, vy = -2, vz = 0\<rparr>
           (initGame 10 11 12 13 14 1)))
   \<and> vx (translation (ballBody (resetBall None None (0.25, 0.75) (initGame 10 11 12 13 14 1))))
       = -0.25
   \<and> vz (translation (ballBody (resetBall None None (0.25, 0.75) (initGame 10 11 12 13 14 1))))
       = 0.05
   \<and> (-0.5::real) \<le> -0.25 \<and> (-0.25::real) < 0.5 \<and> (-0.1::real) \<le> 0.05 \<and> (0.05::real) < 0.1"
proof -
  let ?g = "initGame 10 11 12 13 14 1"
  let ?low = "ballAt \<lparr>vx = 0, vy = -0.3, vz = 0\<rparr> \<lparr>vx = 0, vy = -2, vz = 0\<rparr> ?g"
  have d: "dropFires ?low"
    by (simp add: dropFires_def sample_ball_fields initGame_fields groundMesh_position_y_def
          ballRadius_def)
  have r: "0 \<le> fst (0.25::real, 0.75::real) \<and> fst (0.25::real, 0.75::real) < 1"
          "0 \<le> snd (0.25::real, 0.75::real) \<and> snd (0.25::real, 0.75::real) < 1"
    by simp_all
  have "freshlyReset (stabilize (stillFrame 0 None) ?low)"
    using reset_state [of None None "(0.25, 0.75)" ?low "stillFrame 0 None"] d by blast
  moreover have
    "-0.5 \<le> vx (translation (ballBody (resetBall None None (0.25, 0.75) ?g)))
     \<and> vx (translation (ballBody (resetBall None None (0.25, 0.75) ?g))) < 0.5"
    using reset_state [of None None "(0.25, 0.75)" ?g] r(1) by blast
  moreover have
    "-0.1 \<le> vz (translation (ballBody (resetBall None None (0.25, 0.75) ?g)))
     \<and> vz (translation (ballBody (resetBall None None (0.25, 0.75) ?g))) < 0.1"
    using reset_state [of None None "(0.25, 0.75)" ?g] r(2) by blast
  ultimately show ?thesis
    using d by (simp add: resetBall_spawn)
qed

section \<open>The hold state machine\<close>

lemma flashCount_same: "flashLog h = flashLog g \<Longrightarrow> flashCount c h = flashCount c g"
  by (simp add: flashCount_def)

lemma tposeCheck_flashCount:
  "flashCount CYAN (tposeCheck f g) = flashCount CYAN g + (if tposeFires f g then 1 else 0)"
  "flashCount RED (tposeCheck f g) = flashCount RED g"
  by (simp_all add: flashCount_def tposeCheck_flashLog colors)

lemma color_distinct: "CYAN \<noteq> GREEN" "RED \<noteq> GREEN"
  by (simp_all add: colors)

lemma animate_gesture_fields:
  "isTPosing (animate f g) = isTPosing (tposeCheck f (runTimeouts (elapsedTimeMs f) g))"
  "tPoseStartTime (animate f g) =
     tPoseStartTime (tposeCheck f (runTimeouts (elapsedTimeMs f) g))"
  "tPoseResetCooldownActive (animate f g) =
     tPoseResetCooldownActive (tposeCheck f (runTimeouts (elapsedTimeMs f) g))"
  "cooldownTimeouts (animate f g) =
     cooldownTimeouts (tposeCheck f (runTimeouts (elapsedTimeMs f) g))"
  by (simp_all add: animate_def stabilize_fields stepPhysics_fields updateColliders_fields)

lemma animate_flashCount_CYAN:
  "flashCount CYAN (animate f g) =
     flashCount CYAN g + (if tposeFires f (runTimeouts (elapsedTimeMs f) g) then 1 else 0)"
proof -
  have "flashCount CYAN (animate f g) =
          flashCount CYAN (tposeCheck f (runTimeouts (elapsedTimeMs f) g))"
    by (simp add: animate_def stabilize_flashCount_CYAN stepPhysics_flashCount color_distinct
          flashCount_same [OF updateColliders_fields(6)])
  then show ?thesis
    by (simp add: tposeCheck_flashCount flashCount_same [OF runTimeouts_fields(8)])
qed

lemma animate_flashCount_RED:
  "tPoseResetCooldownActive (animate f g) \<Longrightarrow> flashCount RED (animate f g) = flashCount RED g"
proof -
  assume act: "tPoseResetCooldownActive (animate f g)"
  let ?b = "tposeCheck f (runTimeouts (elapsedTimeMs f) g)"
  let ?c = "stepPhysics f (updateColliders f ?b)"
  have "tPoseResetCooldownActive ?c"
    using act by (simp add: animate_gesture_fields stepPhysics_fields updateColliders_fields)
  then have "\<not> dropFires ?c"
    by (simp add: dropFires_def)
  then have "flashCount RED (animate f g) = flashCount RED ?b"
    by (simp add: animate_def stabilize_flashCount_RED stepPhysics_flashCount color_distinct
          flashCount_same [OF updateColliders_fields(6)])
  then show ?thesis
    by (simp add: tposeCheck_flashCount flashCount_same [OF runTimeouts_fields(8)])
qed

lemma holding_step:
  assumes "isTPosing g" "\<not> tPoseResetCooldownActive g" "showsTPose f"
    and "elapsedTimeMs f - tPoseStartTime g < 700"
  shows "isTPosing (animate f g)" "\<not> tPoseResetCooldownActive (animate f g)"
    and "tPoseStartTime (animate f g) = tPoseStartTime g"
    and "flashCount CYAN (animate f g) = flashCount CYAN g"
  using assms
  by (simp_all add: animate_gesture_fields animate_flashCount_CYAN tposeCheck_hold
        tposeCheck_cooldown tposeFires_def runTimeouts_fields runTimeouts_cooldown
        T_POSE_DURATION_THRESHOLD_MS_def)

lemma start_step:
  assumes "\<not> isTPosing g" "\<not> tPoseResetCooldownActive g" "showsTPose f"
  shows "isTPosing (animate f g)" "\<not> tPoseResetCooldownActive (animate f g)"
    and "tPoseStartTime (animate f g) = elapsedTimeMs f"
    and "flashCount CYAN (animate f g) = flashCount CYAN g"
  using assms
  by (simp_all add: animate_gesture_fields animate_flashCount_CYAN tposeCheck_hold
        tposeCheck_cooldown tposeFires_def runTimeouts_fields runTimeouts_cooldown)

lemma trigger_step:
  assumes "isTPosing g" "\<not> tPoseResetCooldownActive g" "showsTPose f"
    and "elapsedTimeMs f - tPoseStartTime g \<ge> 700"
  shows "tPoseResetCooldownActive (animate f g)"
    and "flashCount CYAN (animate f g) = flashCount CYAN g + 1"
    and "\<forall>due\<in>set (cooldownTimeouts (animate f g)). elapsedTimeMs f < due"
  using assms
  by (simp_all add: animate_gesture_fields animate_flashCount_CYAN tposeCheck_hold
        tposeCheck_cooldown tposeFires_def runTimeouts_fields runTimeouts_cooldown
        T_POSE_DURATION_THRESHOLD_MS_def T_POSE_RESET_COOLDOWN_MS_def)

lemma cooling_step:
  assumes "tPoseResetCooldownActive g"
    and "\<forall>due\<in>set (cooldownTimeouts g). elapsedTimeMs f < due"
  shows "tPoseResetCooldownActive (animate f g)"
    and "cooldownTimeouts (animate f g) = cooldownTimeouts g"
    and "flashCount CYAN (animate f g) = flashCount CYAN g"
    and "flashCount RED (animate f g) = flashCount RED g"
proof -
  show a: "tPoseResetCooldownActive (animate f g)"
    using assms
    by (simp add: animate_gesture_fields tposeCheck_cooldown runTimeouts_cooldown)
  show "cooldownTimeouts (animate f g) = cooldownTimeouts g"
    using assms
    by (simp add: animate_gesture_fields tposeCheck_cooldown runTimeouts_cooldown
          tposeFires_def filter_none_due)
  show "flashCount CYAN (animate f g) = flashCount CYAN g"
    using assms
    by (simp add: animate_flashCount_CYAN tposeFires_def runTimeouts_cooldown)
  show "flashCount RED (animate f g) = flashCount RED g"
    using a by (rule animate_flashCount_RED)
qed

lemma cooling_run:
  assumes "tPoseResetCooldownActive g"
    and "\<forall>f\<in>set fs. \<forall>due\<in>set (cooldownTimeouts g). elapsedTimeMs f < due"
  shows "tPoseResetCooldownActive (run fs g)
         \<and> flashCount CYAN (run fs g) = flashCount CYAN g
         \<and> flashCount RED (run fs g) = flashCount RED g"
  using assms
proof (induction fs arbitrary: g)
  case Nil
  then show ?case by simp
next
  case (Cons f fs)
  have now: "\<forall>due\<in>set (cooldownTimeouts g). elapsedTimeMs f < due"
    using Cons.prems(2) by simp
  note step = cooling_step [OF Cons.prems(1) now]
  have "\<forall>f'\<in>set fs. \<forall>due\<in>set (cooldownTimeouts (animate f g)). elapsedTimeMs f' < due"
    using Cons.prems(2) step(2) by simp
  from Cons.IH [OF step(1) this] show ?case
    by (simp add: step)
qed

lemma holding_run:
  assumes "isTPosing g" "\<not> tPoseResetCooldownActive g"
    and "\<forall>f\<in>set fs. showsTPose f \<and> elapsedTimeMs f \<le> tPoseStartTime g + 700"
    and "sorted (map elapsedTimeMs fs)"
  shows "flashCount CYAN (run fs g) =
           flashCount CYAN g
           + (if \<exists>f\<in>set fs. elapsedTimeMs f = tPoseStartTime g + 700 then 1 else 0)"
  using assms
proof (induction fs arbitrary: g)
  case Nil
  then show ?case by simp
next
  case (Cons f fs)
  have tp: "showsTPose f" and le: "elapsedTimeMs f \<le> tPoseStartTime g + 700"
    using Cons.prems(3) by simp_all
  show ?case
  proof (cases "elapsedTimeMs f = tPoseStartTime g + 700")
    case True
    then have "elapsedTimeMs f - tPoseStartTime g \<ge> 700"
      by simp
    note step = trigger_step [OF Cons.prems(1,2) tp this]
    have "\<forall>f'\<in>set fs. elapsedTimeMs f' = elapsedTimeMs f"
      using Cons.prems(3,4) True by fastforce
    then have "\<forall>f'\<in>set fs. \<forall>due\<in>set (cooldownTimeouts (animate f g)). elapsedTimeMs f' < due"
      using step(3) by simp
    from cooling_run [OF step(1) this] show ?thesis
      using True by (simp add: step(2))
  next
    case False
    then have "elapsedTimeMs f - tPoseStartTime g < 700"
      using le by simp
    note step = holding_step [OF Cons.prems(1,2) tp this]
    have "\<forall>f'\<in>set fs. showsTPose f'
            \<and> elapsedTimeMs f' \<le> tPoseStartTime (animate f g) + 700"
      using Cons.prems(3) step(3) by simp
    moreover have "sorted (map elapsedTimeMs fs)"
      using Cons.prems(4) by simp
    ultimately show ?thesis
      using Cons.IH [OF step(1,2)] False by (simp add: step(3,4))
  qed
qed

lemma sorted_le_last: "sorted xs \<Longrightarrow> x \<in> set xs \<Longrightarrow> (x::real) \<le> last xs"
  by (induction xs) auto

lemma showsTPose_armsOut: "showsTPose (stillFrame t (Some armsOut))"
  by (simp add: showsTPose_def stillFrame_def armsOut_def joint_ids visibleEnough_def joint_def
        arm_defs checkTPose_def LANDMARK_VISIBILITY_THRESHOLD_def)

lemma stillFrame_time: "elapsedTimeMs (stillFrame t pose) = t"
  by (simp add: stillFrame_def)

text \<open>
  C3.  The hold state machine starts idle (no hold in progress, no cooldown active) and
  sees a run of frames \<open>f0 # fs\<close> with clock readings in increasing order, each with a
  pose snapshot in which the detector reports a T-pose.  If the last frame is exactly
  700 ms after the first, exactly one gesture reset fires during the run; if it is 699 ms
  after the first, or any span below 700 ms, none fires.  A gesture reset is counted by
  its cyan flash, which only the reset branch requests.
\<close>

theorem hold_700_triggers_once:
  assumes "\<not> isTPosing g" and "\<not> tPoseResetCooldownActive g"
    and "\<forall>f\<in>set (f0 # fs). showsTPose f"
    and "sorted (map elapsedTimeMs (f0 # fs))"
  shows "(elapsedTimeMs (last (f0 # fs)) = elapsedTimeMs f0 + 700 \<longrightarrow>
            flashCount CYAN (run (f0 # fs) g) = flashCount CYAN g + 1)
         \<and> (elapsedTimeMs (last (f0 # fs)) = elapsedTimeMs f0 + 699 \<longrightarrow>
            flashCount CYAN (run (f0 # fs) g) = flashCount CYAN g)
         \<and> (elapsedTimeMs (last (f0 # fs)) < elapsedTimeMs f0 + 700 \<longrightarrow>
            flashCount CYAN (run (f0 # fs) g) = flashCount CYAN g)"
proof -
  have tp0: "showsTPose f0" and tps: "\<forall>f\<in>set fs. showsTPose f"
    using assms(3) by simp_all
  note first = start_step [OF assms(1,2) tp0]
  have srt: "sorted (map elapsedTimeMs fs)"
    using assms(4) by simp
  have below_last: "elapsedTimeMs f \<le> elapsedTimeMs (last (f0 # fs))" if "f \<in> set fs" for f
  proof -
    have mem: "elapsedTimeMs f \<in> set (map elapsedTimeMs (f0 # fs))"
      using that by simp
    have "last (map elapsedTimeMs (f0 # fs)) = elapsedTimeMs (last (f0 # fs))"
      by (rule last_map) simp
    with sorted_le_last [OF assms(4) mem] show ?thesis
      by (simp only:)
  qed
  have count: "flashCount CYAN (run (f0 # fs) g) =
                 flashCount CYAN g
                 + (if \<exists>f\<in>set fs. elapsedTimeMs f = elapsedTimeMs f0 + 700 then 1 else 0)"
    if "elapsedTimeMs (last (f0 # fs)) \<le> elapsedTimeMs f0 + 700"
  proof -
    have "\<forall>f\<in>set fs. showsTPose f
            \<and> elapsedTimeMs f \<le> tPoseStartTime (animate f0 g) + 700"
      using tps below_last that by (fastforce simp: first(3))
    from holding_run [OF first(1,2) this srt] show ?thesis
      by (simp add: first(3,4))
  qed
  have exact: "flashCount CYAN (run (f0 # fs) g) = flashCount CYAN g + 1"
    if eq: "elapsedTimeMs (last (f0 # fs)) = elapsedTimeMs f0 + 700"
  proof -
    have "fs \<noteq> []"
      using eq by auto
    then have "last fs \<in> set fs" and "elapsedTimeMs (last fs) = elapsedTimeMs f0 + 700"
      using eq by simp_all
    then have "\<exists>f\<in>set fs. elapsedTimeMs f = elapsedTimeMs f0 + 700"
      by blast
    then show ?thesis
      using count eq by simp
  qed
  have short: "flashCount CYAN (run (f0 # fs) g) = flashCount CYAN g"
    if lt: "elapsedTimeMs (last (f0 # fs)) < elapsedTimeMs f0 + 700"
  proof -
    have "\<not> (\<exists>f\<in>set fs. elapsedTimeMs f = elapsedTimeMs f0 + 700)"
      using below_last lt by fastforce
    then show ?thesis
      using count lt by simp
  qed
  show ?thesis
    using exact short by simp
qed

theorem hold_700_triggers_once_witness:
  "showsTPose (stillFrame 0 (Some armsOut))
   \<and> sorted (map elapsedTimeMs
        [stillFrame 0 (Some armsOut), stillFrame 350 (Some armsOut),
         stillFrame 700 (Some armsOut)])
   \<and> flashCount CYAN
        (run [stillFrame 0 (Some armsOut), stillFrame 350 (Some armsOut),
              stillFrame 700 (Some armsOut)] (initGame 10 11 12 13 14 1)) = 1
   \<and> flashCount CYAN
        (run [stillFrame 0 (Some armsOut), stillFrame 350 (Some armsOut),
              stillFrame 699 (Some armsOut)] (initGame 10 11 12 13 14 1)) = 0"
proof -
  let ?g = "initGame 10 11 12 13 14 1"
  let ?f = "\<lambda>t. stillFrame t (Some armsOut)"
  have idle: "\<not> isTPosing ?g" "\<not> tPoseResetCooldownActive ?g"
    by (simp_all add: initGame_fields)
  have tp: "\<forall>f\<in>set (?f 0 # [?f 350, ?f 700]). showsTPose f"
           "\<forall>f\<in>set (?f 0 # [?f 350, ?f 699]). showsTPose f"
    by (simp_all add: showsTPose_armsOut)
  have mono: "sorted (map elapsedTimeMs (?f 0 # [?f 350, ?f 700]))"
             "sorted (map elapsedTimeMs (?f 0 # [?f 350, ?f 699]))"
    by (simp_all add: stillFrame_time)
  have "flashCount CYAN (run (?f 0 # [?f 350, ?f 700]) ?g) = flashCount CYAN ?g + 1"
    using hold_700_triggers_once [OF idle tp(1) mono(1)] by (simp add: stillFrame_time)
  moreover
  have "flashCount CYAN (run (?f 0 # [?f 350, ?f 699]) ?g) = flashCount CYAN ?g"
    using hold_700_triggers_once [OF idle tp(2) mono(2)] by (simp add: stillFrame_time)
  moreover have "flashCount CYAN ?g = 0"
    by (simp add: flashCount_def initGame_fields)
  ultimately show ?thesis
    using mono(1) by (simp add: showsTPose_armsOut)
qed

section \<open>The cooldown\<close>

lemma cooldownConsistent_init: "cooldownConsistent (initGame hb hlk hrk hlf hrf im)"
  by (simp add: cooldownConsistent_def initGame_fields)

lemma length_le1_filter:
  "length xs \<le> 1 \<Longrightarrow> \<not> (\<forall>due\<in>set xs. (now::real) < due) \<Longrightarrow> filter (\<lambda>due. now < due) xs = []"
  by (cases xs) auto

lemma cooldownConsistent_runTimeouts:
  assumes "cooldownConsistent g"
  shows "cooldownConsistent (runTimeouts now g)"
proof (cases "\<forall>due\<in>set (cooldownTimeouts g). now < due")
  case True
  then show ?thesis
    using assms by (simp add: cooldownConsistent_def runTimeouts_cooldown filter_none_due)
next
  case False
  then show ?thesis
    using assms by (simp add: cooldownConsistent_def runTimeouts_cooldown length_le1_filter)
qed

lemma cooldownConsistent_tposeCheck:
  assumes "cooldownConsistent g"
  shows "cooldownConsistent (tposeCheck f g)"
proof (cases "tposeFires f g")
  case True
  then have "cooldownTimeouts g = []"
    using assms by (simp add: cooldownConsistent_def tposeFires_def)
  then show ?thesis
    using True by (simp add: cooldownConsistent_def tposeCheck_cooldown)
next
  case False
  then show ?thesis
    using assms by (simp add: cooldownConsistent_def tposeCheck_cooldown)
qed

lemma cooldownConsistent_animate:
  "cooldownConsistent g \<Longrightarrow> cooldownConsistent (animate f g)"
  using cooldownConsistent_tposeCheck [OF cooldownConsistent_runTimeouts, of g f "elapsedTimeMs f"]
  by (simp add: cooldownConsistent_def animate_gesture_fields)

lemma cooldownConsistent_run:
  "cooldownConsistent g \<Longrightarrow> cooldownConsistent (run fs g)"
  by (induction fs arbitrary: g) (simp_all add: cooldownConsistent_animate)

lemma fired_step:
  assumes "cooldownConsistent g"
    and "flashCount CYAN (animate f g) = flashCount CYAN g + 1"
  shows "tPoseResetCooldownActive (animate f g)"
    and "cooldownTimeouts (animate f g) = [elapsedTimeMs f + 2000]"
proof -
  let ?a = "runTimeouts (elapsedTimeMs f) g"
  have fires: "tposeFires f ?a"
    using assms(2) by (simp add: animate_flashCount_CYAN split: if_splits)
  have "cooldownConsistent ?a"
    using assms(1) by (rule cooldownConsistent_runTimeouts)
  then have "cooldownTimeouts ?a = []"
    using fires by (simp add: cooldownConsistent_def tposeFires_def)
  then show "tPoseResetCooldownActive (animate f g)"
    and "cooldownTimeouts (animate f g) = [elapsedTimeMs f + 2000]"
    using fires
    by (simp_all add: animate_gesture_fields tposeCheck_cooldown T_POSE_RESET_COOLDOWN_MS_def)
qed

lemma fired_idle:
  assumes "flashCount CYAN (animate f g) = flashCount CYAN g + 1"
  shows "\<not> isTPosing (animate f g)"
proof -
  have "tposeFires f (runTimeouts (elapsedTimeMs f) g)"
    using assms by (simp add: animate_flashCount_CYAN split: if_splits)
  then show ?thesis
    by (simp add: animate_gesture_fields tposeCheck_hold)
qed

lemma cooling_step_idle:
  assumes "tPoseResetCooldownActive g"
    and "\<forall>due\<in>set (cooldownTimeouts g). elapsedTimeMs f < due"
  shows "\<not> isTPosing (animate f g)"
  using assms
  by (simp add: animate_gesture_fields tposeCheck_hold runTimeouts_cooldown)

lemma cooling_run_idle:
  assumes "tPoseResetCooldownActive g" and "\<not> isTPosing g"
    and "\<forall>f\<in>set fs. \<forall>due\<in>set (cooldownTimeouts g). elapsedTimeMs f < due"
  shows "\<not> isTPosing (run fs g)"
  using assms
proof (induction fs arbitrary: g)
  case Nil
  then show ?case by simp
next
  case (Cons f fs)
  have now: "\<forall>due\<in>set (cooldownTimeouts g). elapsedTimeMs f < due"
    using Cons.prems(3) by simp
  note step = cooling_step [OF Cons.prems(1) now]
  have idle: "\<not> isTPosing (animate f g)"
    using Cons.prems(1) now by (rule cooling_step_idle)
  have "\<forall>f'\<in>set fs. \<forall>due\<in>set (cooldownTimeouts (animate f g)). elapsedTimeMs f' < due"
    using Cons.prems(3) step(2) by simp
  from Cons.IH [OF step(1) idle this] show ?case
    by simp
qed

text \<open>
  C4.  Take any state \<open>g\<close> the game reaches from its initial state, and a frame \<open>f0\<close> in
  which the gesture reset fires.  Then after \<open>f0\<close> and after every further frame whose
  clock reading is less than 2000 ms after that of \<open>f0\<close>, whatever the pose snapshots,
  physics and collisions of those frames, the state machine is not holding (\<open>isTPosing\<close>
  is false: the cooldown blocks re-entry into the holding state), the cooldown is still
  active, and no further gesture reset has fired (no cyan flash); and neither in \<open>f0\<close>
  nor in those frames does the drop reset fire (no red flash, which only the drop reset
  requests).  Since \<open>fs\<close> is any such sequence of frames, this holds after each of them.
\<close>

theorem cooldown_blocks_resets:
  assumes "g = run pre (initGame hb hlk hrk hlf hrf im)"
    and "flashCount CYAN (animate f0 g) = flashCount CYAN g + 1"
    and "\<forall>f\<in>set fs. elapsedTimeMs f < elapsedTimeMs f0 + 2000"
  shows "flashCount CYAN (run fs (animate f0 g)) = flashCount CYAN (animate f0 g)
         \<and> flashCount RED (run (f0 # fs) g) = flashCount RED g
         \<and> tPoseResetCooldownActive (run fs (animate f0 g))
         \<and> \<not> isTPosing (run fs (animate f0 g))"
proof -
  have "cooldownConsistent g"
    unfolding assms(1) by (rule cooldownConsistent_run) (rule cooldownConsistent_init)
  note fired = fired_step [OF this assms(2)]
  have idle: "\<not> isTPosing (animate f0 g)"
    using assms(2) by (rule fired_idle)
  have window: "\<forall>f\<in>set fs. \<forall>due\<in>set (cooldownTimeouts (animate f0 g)). elapsedTimeMs f < due"
    using assms(3) by (simp add: fired(2))
  have "\<not> isTPosing (run fs (animate f0 g))"
    using fired(1) idle window by (rule cooling_run_idle)
  with cooling_run [OF fired(1) window] show ?thesis
    by (simp add: animate_flashCount_RED [OF fired(1)])
qed

theorem cooldown_blocks_resets_witness:
  "flashCount CYAN
     (run [stillFrame 0 (Some armsOut), stillFrame 700 (Some armsOut),
           stillFrame 1500 (Some armsOut), stillFrame 2699 (Some armsOut)]
        (initGame 10 11 12 13 14 1)) = 1
   \<and> flashCount RED
     (run [stillFrame 0 (Some armsOut), stillFrame 700 (Some armsOut),
           stillFrame 1500 (Some armsOut), stillFrame 2699 (Some armsOut)]
        (initGame 10 11 12 13 14 1))
     = flashCount RED (run [stillFrame 0 (Some armsOut)] (initGame 10 11 12 13 14 1))
   \<and> tPoseResetCooldownActive
     (run [stillFrame 0 (Some armsOut), stillFrame 700 (Some armsOut),
           stillFrame 1500 (Some armsOut), stillFrame 2699 (Some armsOut)]
        (initGame 10 11 12 13 14 1))
   \<and> showsTPose (stillFrame 1500 (Some armsOut))
   \<and> showsTPose (stillFrame 2699 (Some armsOut))
   \<and> \<not> isTPosing
     (run [stillFrame 0 (Some armsOut), stillFrame 700 (Some armsOut),
           stillFrame 1500 (Some armsOut)]
        (initGame 10 11 12 13 14 1))
   \<and> \<not> isTPosing
     (run [stillFrame 0 (Some armsOut), stillFrame 700 (Some armsOut),
           stillFrame 1500 (Some armsOut), stillFrame 2699 (Some armsOut)]
        (initGame 10 11 12 13 14 1))"
proof -
  let ?i = "initGame 10 11 12 13 14 1"
  let ?f = "\<lambda>t. stillFrame t (Some armsOut)"
  let ?g = "run [?f 0] ?i"
  have idle: "\<not> isTPosing ?i" "\<not> tPoseResetCooldownActive ?i"
    by (simp_all add: initGame_fields)
  note first = start_step [OF idle showsTPose_armsOut, of 0]
  have g: "isTPosing ?g" "\<not> tPoseResetCooldownActive ?g" "tPoseStartTime ?g = 0"
          "flashCount CYAN ?g = 0"
    using first by (simp_all add: stillFrame_time flashCount_def initGame_fields)
  have "elapsedTimeMs (?f 700) - tPoseStartTime ?g \<ge> 700"
    using g(3) by (simp add: stillFrame_time)
  note trig = trigger_step [OF g(1,2) showsTPose_armsOut this]
  have window: "\<forall>f\<in>set [?f 1500, ?f 2699]. elapsedTimeMs f < elapsedTimeMs (?f 700) + 2000"
    by (simp add: stillFrame_time)
  have window1: "\<forall>f\<in>set [?f 1500]. elapsedTimeMs f < elapsedTimeMs (?f 700) + 2000"
    by (simp add: stillFrame_time)
  from cooldown_blocks_resets [OF refl trig(2) window]
       cooldown_blocks_resets [OF refl trig(2) window1]
  show ?thesis
    using trig(2) g(4) by (simp add: showsTPose_armsOut)
qed

end
